theory Spec2Isabelle
  imports Complex_Main
begin

section \<open>Python values carried by a request payload\<close>

text \<open>
  The module \<^verbatim>\<open>networking_sfc/extensions/sfc.py\<close> receives the values of a decoded JSON
  request body: null, booleans, integers, numbers that are not integers, strings, lists
  and dictionaries with string keys. A dictionary is an association list in insertion
  order. A number that is not an integer is decoded to a float; a float is taken as the
  real number it denotes, and the values that denote none (NaN, the infinities) are left
  out.
\<close>

datatype pyval =
    PNone
  | PBool bool
  | PInt int
  | PFloat real
  | PStr string
  | PList "pyval list"
  | PDict "(string \<times> pyval) list"

text \<open>Python's truth value of an object, as tested by \<^verbatim>\<open>if not x\<close>.\<close>

fun py_truthy :: "pyval \<Rightarrow> bool" where
  "py_truthy PNone = False"
| "py_truthy (PBool b) = b"
| "py_truthy (PInt n) = (n \<noteq> 0)"
| "py_truthy (PFloat x) = (x \<noteq> 0)"
| "py_truthy (PStr s) = (s \<noteq> [])"
| "py_truthy (PList xs) = (xs \<noteq> [])"
| "py_truthy (PDict kvs) = (kvs \<noteq> [])"

text \<open>Lists and dictionaries are unhashable: \<^verbatim>\<open>set([[1]])\<close> raises \<^verbatim>\<open>TypeError\<close>.\<close>

fun hashable :: "pyval \<Rightarrow> bool" where
  "hashable (PList xs) = False"
| "hashable (PDict kvs) = False"
| "hashable v = True"

text \<open>
  Members of a Python set are compared with \<^verbatim>\<open>==\<close>: \<^verbatim>\<open>True == 1\<close>,
  \<^verbatim>\<open>False == 0\<close> and \<^verbatim>\<open>1.0 == 1\<close>, every other pair of hashable values of different
  types differs. \<open>py_key\<close> picks the representative of a hashable value.
\<close>

fun py_key :: "pyval \<Rightarrow> pyval" where
  "py_key (PBool b) = PInt (if b then 1 else 0)"
| "py_key (PFloat x) = (if of_int \<lfloor>x\<rfloor> = x then PInt \<lfloor>x\<rfloor> else PFloat x)"
| "py_key v = v"

fun is_str :: "pyval \<Rightarrow> bool" where
  "is_str (PStr s) = True"
| "is_str v = False"

section \<open>Exceptions\<close>

text \<open>The three host exception classes the module derives from (\<^verbatim>\<open>neutron_lib.exceptions\<close>).\<close>

datatype host_exc = NotFound | InUse | InvalidInput

text \<open>A declared exception class: its name, its base class and its message template.\<close>

record exc_class =
  exc_name :: string
  exc_base :: host_exc
  exc_message :: string

definition PortChainNotFound :: exc_class where
  "PortChainNotFound = \<lparr>exc_name = ''PortChainNotFound'', exc_base = NotFound,
     exc_message = ''Port Chain %(id)s not found.''\<rparr>"

definition PortChainUnavailableChainId :: exc_class where
  "PortChainUnavailableChainId = \<lparr>exc_name = ''PortChainUnavailableChainId'',
     exc_base = InvalidInput,
     exc_message = ''Port Chain %(id)s no available chain id.''\<rparr>"

definition PortChainFlowClassifierInConflict :: exc_class where
  "PortChainFlowClassifierInConflict = \<lparr>exc_name = ''PortChainFlowClassifierInConflict'',
     exc_base = InvalidInput,
     exc_message = ''Flow Classifier %(fc_id)s conflicts with '' @
                   ''Flow Classifier %(pc_fc_id)s in port chain %(pc_id)s.''\<rparr>"

definition PortChainChainIdInConflict :: exc_class where
  "PortChainChainIdInConflict = \<lparr>exc_name = ''PortChainChainIdInConflict'',
     exc_base = InvalidInput,
     exc_message = ''Chain id %(chain_id)s conflicts with '' @
                   ''Chain id in port chain %(pc_id)s.''\<rparr>"

definition PortPairGroupNotSpecified :: exc_class where
  "PortPairGroupNotSpecified = \<lparr>exc_name = ''PortPairGroupNotSpecified'',
     exc_base = InvalidInput,
     exc_message = ''Port Pair Group is not specified in Port Chain.''\<rparr>"

definition InvalidPortPairGroups :: exc_class where
  "InvalidPortPairGroups = \<lparr>exc_name = ''InvalidPortPairGroups'', exc_base = InUse,
     exc_message = ''Port Pair Group(s) %(port_pair_groups)s in use by '' @
                   ''Port Chain %(port_chain)s.''\<rparr>"

definition PortPairPortNotFound :: exc_class where
  "PortPairPortNotFound = \<lparr>exc_name = ''PortPairPortNotFound'', exc_base = NotFound,
     exc_message = ''Port Pair port %(id)s not found.''\<rparr>"

definition PortPairIngressEgressDifferentHost :: exc_class where
  "PortPairIngressEgressDifferentHost = \<lparr>exc_name = ''PortPairIngressEgressDifferentHost'',
     exc_base = InvalidInput,
     exc_message = ''Port Pair ingress port %(ingress)s and'' @
                   ''egress port %(egress)s not in the same host.''\<rparr>"

definition PortPairIngressNoHost :: exc_class where
  "PortPairIngressNoHost = \<lparr>exc_name = ''PortPairIngressNoHost'', exc_base = InvalidInput,
     exc_message = ''Port Pair ingress port %(ingress)s does not '' @
                   ''belong to a host.''\<rparr>"

definition PortPairEgressNoHost :: exc_class where
  "PortPairEgressNoHost = \<lparr>exc_name = ''PortPairEgressNoHost'', exc_base = InvalidInput,
     exc_message = ''Port Pair egress port %(egress)s does not '' @
                   ''belong to a host.''\<rparr>"

definition PortPairIngressEgressInUse :: exc_class where
  "PortPairIngressEgressInUse = \<lparr>exc_name = ''PortPairIngressEgressInUse'',
     exc_base = InvalidInput,
     exc_message = ''Port Pair with ingress port %(ingress)s '' @
                   ''and egress port %(egress)s is already used by '' @
                   ''another Port Pair %(id)s.''\<rparr>"

definition PortPairNotFound :: exc_class where
  "PortPairNotFound = \<lparr>exc_name = ''PortPairNotFound'', exc_base = NotFound,
     exc_message = ''Port Pair %(id)s not found.''\<rparr>"

definition PortPairGroupNotFound :: exc_class where
  "PortPairGroupNotFound = \<lparr>exc_name = ''PortPairGroupNotFound'', exc_base = NotFound,
     exc_message = ''Port Pair Group %(id)s not found.''\<rparr>"

definition PortPairGroupInUse :: exc_class where
  "PortPairGroupInUse = \<lparr>exc_name = ''PortPairGroupInUse'', exc_base = InUse,
     exc_message = ''Port Pair Group %(id)s in use.''\<rparr>"

definition PortPairInUse :: exc_class where
  "PortPairInUse = \<lparr>exc_name = ''PortPairInUse'', exc_base = InUse,
     exc_message = ''Port Pair %(id)s in use.''\<rparr>"

text \<open>The exception classes of the module, in the order of their declaration.\<close>

definition exception_classes :: "exc_class list" where
  "exception_classes =
    [PortChainNotFound, PortChainUnavailableChainId, PortChainFlowClassifierInConflict,
     PortChainChainIdInConflict, PortPairGroupNotSpecified, InvalidPortPairGroups,
     PortPairPortNotFound, PortPairIngressEgressDifferentHost, PortPairIngressNoHost,
     PortPairEgressNoHost, PortPairIngressEgressInUse, PortPairNotFound,
     PortPairGroupNotFound, PortPairGroupInUse, PortPairInUse]"

text \<open>
  What a call can raise: Python's built-in \<^verbatim>\<open>TypeError\<close>, one of the module's
  exception classes, or one of the host's exception classes itself.
\<close>

datatype error = TypeError | Raised exc_class | Raised_host host_exc

section \<open>Constants of the module\<close>

definition DEFAULT_CHAIN_CORRELATION :: pyval where
  "DEFAULT_CHAIN_CORRELATION = PStr ''mpls''"

definition DEFAULT_CHAIN_SYMMETRY :: pyval where
  "DEFAULT_CHAIN_SYMMETRY = PBool False"

definition DEFAULT_CHAIN_PARAMETERS :: pyval where
  "DEFAULT_CHAIN_PARAMETERS =
     PDict [(''correlation'', DEFAULT_CHAIN_CORRELATION),
            (''symmetric'', DEFAULT_CHAIN_SYMMETRY)]"

definition DEFAULT_SF_PARAMETERS :: pyval where
  "DEFAULT_SF_PARAMETERS = PDict [(''correlation'', PNone), (''weight'', PInt 1)]"

definition DEFAULT_PPG_PARAMETERS :: pyval where
  "DEFAULT_PPG_PARAMETERS = PDict [(''lb_fields'', PList [])]"

definition SUPPORTED_LB_FIELDS :: "pyval list" where
  "SUPPORTED_LB_FIELDS =
     [PStr ''eth_src'', PStr ''eth_dst'', PStr ''ip_src'', PStr ''ip_dst'',
      PStr ''tcp_src'', PStr ''tcp_dst'', PStr ''udp_src'', PStr ''udp_dst'']"

definition MAX_CHAIN_ID :: int where
  "MAX_CHAIN_ID = 65535"

section \<open>Validators\<close>

text \<open>
  A validator returns \<^verbatim>\<open>None\<close> when it accepts the value and a message when it rejects
  it. The messages are kept as their template and arguments. The text of
  \<open>IllegalValues\<close> is \<^verbatim>\<open>', '.join(illegal_values)\<close>, whose order is the iteration
  order of a Python set: the message carries the set.
\<close>

datatype message =
    NotAList pyval
  | IllegalValues "pyval set"
  | TooSmall int int
  | TooLarge int int
  | NotInValues pyval "pyval list"

text \<open>
  \<^verbatim>\<open>validate_list_of_allowed_values(data, allowed_values=None)\<close>. A value that is not a
  list is rejected with a message. \<^verbatim>\<open>set(data)\<close> raises \<^verbatim>\<open>TypeError\<close> on an unhashable
  member, \<^verbatim>\<open>set(allowed_values)\<close> on \<^verbatim>\<open>None\<close> and on an unhashable member, and
  \<^verbatim>\<open>', '.join(illegal_values)\<close> on a member that is not a string.
\<close>

definition validate_list_of_allowed_values ::
    "pyval \<Rightarrow> pyval list option \<Rightarrow> error + message option" where
  "validate_list_of_allowed_values data allowed_values =
     (case data of
        PList xs \<Rightarrow>
          (if \<not> list_all hashable xs then Inl TypeError
           else case allowed_values of
             None \<Rightarrow> Inl TypeError
           | Some avs \<Rightarrow>
               if \<not> list_all hashable avs then Inl TypeError
               else
                 let illegal_values = set (map py_key xs) - set (map py_key avs) in
                 if illegal_values = {} then Inr None
                 else if list_all is_str (filter (\<lambda>x. x \<in> illegal_values) (map py_key xs))
                   then Inr (Some (IllegalValues illegal_values))
                   else Inl TypeError)
      | _ \<Rightarrow> Inr (Some (NotAList data)))"


text \<open>
  Modelled from the spec: the validator registered by the host library under
  \<^verbatim>\<open>type:values\<close> (\<^verbatim>\<open>validate_values\<close> of \<^verbatim>\<open>neutron_lib.api.validators\<close>) is not under
  src/. The spec speaks of the allowed values of a field: a value is accepted when it
  is equal, in Python's sense, to one of them, and rejected with a message otherwise.
\<close>

definition validate_values :: "pyval \<Rightarrow> pyval list \<Rightarrow> message option" where
  "validate_values data valid_values =
     (if py_key data \<in> set (map py_key valid_values) then None
      else Some (NotInValues data valid_values))"

section \<open>Converters\<close>

text \<open>
  Modelled from the spec: \<^verbatim>\<open>convert_to_list\<close> of \<^verbatim>\<open>neutron_lib.api.converters\<close> is
  imported by the module and is not under src/. The spec has a chain whose port
  pair groups are not specified raise the "not specified" condition, so null becomes the
  empty list. The
  other branches are the library's: an iterable that is not a string becomes the list of
  its items (a dictionary gives its keys), and any other value becomes a list of one
  item.
\<close>

fun convert_to_list :: "pyval \<Rightarrow> pyval list" where
  "convert_to_list PNone = []"
| "convert_to_list (PList xs) = xs"
| "convert_to_list (PDict kvs) = map (\<lambda>kv. PStr (fst kv)) kvs"
| "convert_to_list v = [v]"





text \<open>\<^verbatim>\<open>normalize_port_pair_groups(port_pair_groups)\<close>.\<close>

definition normalize_port_pair_groups :: "pyval \<Rightarrow> error + pyval list" where
  "normalize_port_pair_groups port_pair_groups =
     (let port_pair_groups = convert_to_list port_pair_groups in
      if port_pair_groups = [] then Inl (Raised PortPairGroupNotSpecified)
      else Inr port_pair_groups)"

text \<open>Whether the first list is a prefix of the second, and whether it occurs in it.\<close>

fun is_prefix :: "'a list \<Rightarrow> 'a list \<Rightarrow> bool" where
  "is_prefix [] ys = True"
| "is_prefix (x # xs) [] = False"
| "is_prefix (x # xs) (y # ys) = (x = y \<and> is_prefix xs ys)"

fun contains :: "'a list \<Rightarrow> 'a list \<Rightarrow> bool" where
  "contains sub [] = (sub = [])"
| "contains sub (c # cs) = (is_prefix sub (c # cs) \<or> contains sub cs)"

text \<open>
  \<^verbatim>\<open>key in parameters\<close> for a string \<open>key\<close>: a key of a dictionary, a member of a
  list, a substring of a string; \<^verbatim>\<open>TypeError\<close> on null, a boolean and an integer, which
  are not iterable.
\<close>

fun py_in :: "string \<Rightarrow> pyval \<Rightarrow> error + bool" where
  "py_in key (PDict kvs) = Inr (key \<in> set (map fst kvs))"
| "py_in key (PList xs) = Inr (PStr key \<in> set xs)"
| "py_in key (PStr s) = Inr (contains key s)"
| "py_in key v = Inl TypeError"

text \<open>
  \<^verbatim>\<open>d[key] = value\<close> on a dictionary keeps the position of a key that is present and
  appends a new key.
\<close>

fun dict_set :: "string \<Rightarrow> pyval \<Rightarrow> (string \<times> pyval) list \<Rightarrow> (string \<times> pyval) list" where
  "dict_set k v [] = [(k, v)]"
| "dict_set k v (kv # kvs) = (if fst kv = k then (k, v) # kvs else kv # dict_set k v kvs)"

text \<open>
  \<^verbatim>\<open>parameters[key] = value\<close> for a string \<open>key\<close>: \<^verbatim>\<open>TypeError\<close> on every value that
  is not a dictionary.
\<close>

fun py_setitem :: "pyval \<Rightarrow> string \<Rightarrow> pyval \<Rightarrow> error + pyval" where
  "py_setitem (PDict kvs) key v = Inr (PDict (dict_set key v kvs))"
| "py_setitem p key v = Inl TypeError"

text \<open>
  One step \<^verbatim>\<open>if key not in parameters: parameters[key] = value\<close>. The source updates
  the dictionary in place; the updated dictionary is returned here.
\<close>

definition set_default :: "string \<Rightarrow> pyval \<Rightarrow> pyval \<Rightarrow> error + pyval" where
  "set_default key v parameters =
     (case py_in key parameters of
        Inl e \<Rightarrow> Inl e
      | Inr present \<Rightarrow> if present then Inr parameters else py_setitem parameters key v)"

text \<open>\<^verbatim>\<open>normalize_chain_parameters(parameters)\<close>.\<close>

definition normalize_chain_parameters :: "pyval \<Rightarrow> error + pyval" where
  "normalize_chain_parameters parameters =
     (if \<not> py_truthy parameters then Inr DEFAULT_CHAIN_PARAMETERS
      else case set_default ''correlation'' DEFAULT_CHAIN_CORRELATION parameters of
        Inl e \<Rightarrow> Inl e
      | Inr parameters \<Rightarrow> set_default ''symmetric'' DEFAULT_CHAIN_SYMMETRY parameters)"

text \<open>\<^verbatim>\<open>normalize_sf_parameters(parameters)\<close> and \<^verbatim>\<open>normalize_ppg_parameters(parameters)\<close>.\<close>

definition normalize_sf_parameters :: "pyval \<Rightarrow> pyval" where
  "normalize_sf_parameters parameters =
     (if py_truthy parameters then parameters else DEFAULT_SF_PARAMETERS)"

definition normalize_ppg_parameters :: "pyval \<Rightarrow> pyval" where
  "normalize_ppg_parameters parameters =
     (if py_truthy parameters then parameters else DEFAULT_PPG_PARAMETERS)"

section \<open>The resource attribute map\<close>

text \<open>
  The sizes \<^verbatim>\<open>db_const.NAME_FIELD_SIZE\<close>, \<^verbatim>\<open>db_const.DESCRIPTION_FIELD_SIZE\<close> and
  \<^verbatim>\<open>db_const.PROJECT_ID_FIELD_SIZE\<close> are constants of the host library; the map
  refers to them by name.
\<close>

datatype db_const = NAME_FIELD_SIZE | DESCRIPTION_FIELD_SIZE | PROJECT_ID_FIELD_SIZE

text \<open>The functions that occur under \<^verbatim>\<open>convert_to\<close>.\<close>

datatype converter =
    Convert_to_int
  | Convert_to_list
  | Convert_none_to_empty_list
  | Convert_to_boolean
  | Normalize_port_pair_groups
  | Normalize_chain_parameters
  | Normalize_sf_parameters
  | Normalize_ppg_parameters

text \<open>
  A validation rule is a key \<^verbatim>\<open>type:...\<close> with its parameter. The parameter of
  \<^verbatim>\<open>type:dict\<close> gives, for each key of the dictionary, a default, at most one rule and
  at most one converter.
\<close>

datatype rule =
    Type_uuid
  | Type_string db_const
  | Type_range "int \<times> int"
  | Type_uuid_list
  | Type_values "pyval list"
  | Type_non_negative
  | Type_list_of_allowed_values "pyval list"
  | Type_dict "(string \<times> key_spec) list"
and key_spec =
    Key_spec (key_default: pyval) (key_validate: "rule option")
      (key_convert_to: "converter option")

text \<open>
  An attribute of a resource. \<open>attr_default\<close> is \<open>None\<close> when the entry has no key
  \<^verbatim>\<open>default\<close>; the flags \<^verbatim>\<open>primary_key\<close> and \<^verbatim>\<open>required_by_policy\<close> are false when
  the entry does not have them.
\<close>

record attribute =
  allow_post :: bool
  allow_put :: bool
  is_visible :: bool
  attr_default :: "pyval option"
  attr_validate :: "rule list"
  attr_convert_to :: "converter option"
  primary_key :: bool
  required_by_policy :: bool

definition attr ::
    "bool \<Rightarrow> bool \<Rightarrow> pyval option \<Rightarrow> rule list \<Rightarrow> converter option \<Rightarrow> attribute" where
  "attr post put dflt rules conv =
     \<lparr>allow_post = post, allow_put = put, is_visible = True, attr_default = dflt,
      attr_validate = rules, attr_convert_to = conv, primary_key = False,
      required_by_policy = False\<rparr>"

definition port_pairs_attributes :: "(string \<times> attribute) list" where
  "port_pairs_attributes =
    [(''id'', (attr False False None [Type_uuid] None)\<lparr>primary_key := True\<rparr>),
     (''name'', attr True True (Some (PStr [])) [Type_string NAME_FIELD_SIZE] None),
     (''description'',
        attr True True (Some (PStr [])) [Type_string DESCRIPTION_FIELD_SIZE] None),
     (''tenant_id'',
        (attr True False None [Type_string PROJECT_ID_FIELD_SIZE] None)
          \<lparr>required_by_policy := True\<rparr>),
     (''ingress'', attr True False None [Type_uuid] None),
     (''egress'', attr True False None [Type_uuid] None),
     (''service_function_parameters'',
        attr True False (Some PNone)
          [Type_dict
            [(''correlation'', Key_spec PNone (Some (Type_values [PNone])) None),
             (''weight'', Key_spec (PInt 1) (Some Type_non_negative) (Some Convert_to_int))]]
          (Some Normalize_sf_parameters))]"

definition port_chains_attributes :: "(string \<times> attribute) list" where
  "port_chains_attributes =
    [(''id'', (attr False False None [Type_uuid] None)\<lparr>primary_key := True\<rparr>),
     (''chain_id'',
        attr True False (Some (PInt 0)) [Type_range (0, MAX_CHAIN_ID)] (Some Convert_to_int)),
     (''name'', attr True True (Some (PStr [])) [Type_string NAME_FIELD_SIZE] None),
     (''description'',
        attr True True (Some (PStr [])) [Type_string DESCRIPTION_FIELD_SIZE] None),
     (''tenant_id'',
        (attr True False None [Type_string PROJECT_ID_FIELD_SIZE] None)
          \<lparr>required_by_policy := True\<rparr>),
     (''port_pair_groups'',
        attr True True None [Type_uuid_list] (Some Normalize_port_pair_groups)),
     (''flow_classifiers'',
        attr True True (Some PNone) [Type_uuid_list] (Some Convert_to_list)),
     (''chain_parameters'',
        attr True False (Some PNone)
          [Type_dict
            [(''correlation'',
                Key_spec (PStr ''mpls'') (Some (Type_values [PStr ''mpls''])) None),
             (''symmetric'', Key_spec (PBool False) None (Some Convert_to_boolean))]]
          (Some Normalize_chain_parameters))]"

definition port_pair_groups_attributes :: "(string \<times> attribute) list" where
  "port_pair_groups_attributes =
    [(''id'', (attr False False None [Type_uuid] None)\<lparr>primary_key := True\<rparr>),
     (''group_id'', attr False False None [] None),
     (''name'', attr True True (Some (PStr [])) [Type_string NAME_FIELD_SIZE] None),
     (''description'',
        attr True True (Some (PStr [])) [Type_string DESCRIPTION_FIELD_SIZE] None),
     (''tenant_id'',
        (attr True False None [Type_string PROJECT_ID_FIELD_SIZE] None)
          \<lparr>required_by_policy := True\<rparr>),
     (''port_pairs'',
        attr True True (Some PNone) [Type_uuid_list] (Some Convert_none_to_empty_list)),
     (''port_pair_group_parameters'',
        attr True False (Some PNone)
          [Type_dict
            [(''lb_fields'',
                Key_spec (PList []) (Some (Type_list_of_allowed_values SUPPORTED_LB_FIELDS))
                  None)]]
          (Some Normalize_ppg_parameters))]"

definition RESOURCE_ATTRIBUTE_MAP :: "(string \<times> (string \<times> attribute) list) list" where
  "RESOURCE_ATTRIBUTE_MAP =
    [(''port_pairs'', port_pairs_attributes),
     (''port_chains'', port_chains_attributes),
     (''port_pair_groups'', port_pair_groups_attributes)]"

text \<open>\<^verbatim>\<open>RESOURCE_ATTRIBUTE_MAP[resource][name]\<close>, with \<open>None\<close> for a missing key.\<close>

definition attribute_of :: "string \<Rightarrow> string \<Rightarrow> attribute option" where
  "attribute_of resource name =
     (case map_of RESOURCE_ATTRIBUTE_MAP resource of
        None \<Rightarrow> None
      | Some attrs \<Rightarrow> map_of attrs name)"

text \<open>
  \<^verbatim>\<open>RESOURCE_ATTRIBUTE_MAP[resource][name]['validate']['type:dict'][key]\<close>, with \<open>None\<close>
  when the attribute is missing, is not validated by the single rule \<^verbatim>\<open>type:dict\<close>, or
  has no such key.
\<close>

definition key_spec_of :: "string \<Rightarrow> string \<Rightarrow> string \<Rightarrow> key_spec option" where
  "key_spec_of resource name key =
     (case attribute_of resource name of
        None \<Rightarrow> None
      | Some a \<Rightarrow>
          (case attr_validate a of
             [Type_dict specs] \<Rightarrow> map_of specs key
           | _ \<Rightarrow> None))"

section \<open>Creation of a resource\<close>





section \<open>The plugin interface\<close>

text \<open>
  The methods that the class \<^verbatim>\<open>SfcPluginBase\<close> declares, in the order of their
  declaration: name, parameters after \<^verbatim>\<open>self\<close>, and whether the method is decorated
  with \<^verbatim>\<open>@abstractmethod\<close>.
\<close>

record plugin_method =
  method_name :: string
  method_params :: "string list"
  is_abstract :: bool

definition listing_params :: "string list" where
  "listing_params =
     [''context'', ''filters'', ''fields'', ''sorts'', ''limit'', ''marker'', ''page_reverse'']"

definition SfcPluginBase :: "plugin_method list" where
  "SfcPluginBase =
    [\<lparr>method_name = ''get_plugin_name'', method_params = [], is_abstract = False\<rparr>,
     \<lparr>method_name = ''get_plugin_type'', method_params = [], is_abstract = False\<rparr>,
     \<lparr>method_name = ''get_plugin_description'', method_params = [], is_abstract = False\<rparr>,
     \<lparr>method_name = ''create_port_chain'', method_params = [''context'', ''port_chain''],
      is_abstract = True\<rparr>,
     \<lparr>method_name = ''update_port_chain'',
      method_params = [''context'', ''id'', ''port_chain''], is_abstract = True\<rparr>,
     \<lparr>method_name = ''delete_port_chain'', method_params = [''context'', ''id''],
      is_abstract = True\<rparr>,
     \<lparr>method_name = ''get_port_chains'', method_params = listing_params,
      is_abstract = True\<rparr>,
     \<lparr>method_name = ''get_port_chain'', method_params = [''context'', ''id'', ''fields''],
      is_abstract = True\<rparr>,
     \<lparr>method_name = ''create_port_pair_group'',
      method_params = [''context'', ''port_pair_group''], is_abstract = True\<rparr>,
     \<lparr>method_name = ''update_port_pair_group'',
      method_params = [''context'', ''id'', ''port_pair_group''], is_abstract = True\<rparr>,
     \<lparr>method_name = ''delete_port_pair_group'', method_params = [''context'', ''id''],
      is_abstract = True\<rparr>,
     \<lparr>method_name = ''get_port_pair_groups'', method_params = listing_params,
      is_abstract = True\<rparr>,
     \<lparr>method_name = ''get_port_pair_group'',
      method_params = [''context'', ''id'', ''fields''], is_abstract = True\<rparr>,
     \<lparr>method_name = ''create_port_pair'', method_params = [''context'', ''port_pair''],
      is_abstract = True\<rparr>,
     \<lparr>method_name = ''update_port_pair'',
      method_params = [''context'', ''id'', ''port_pair''], is_abstract = True\<rparr>,
     \<lparr>method_name = ''delete_port_pair'', method_params = [''context'', ''id''],
      is_abstract = True\<rparr>,
     \<lparr>method_name = ''get_port_pairs'', method_params = listing_params,
      is_abstract = True\<rparr>,
     \<lparr>method_name = ''get_port_pair'', method_params = [''context'', ''id'', ''fields''],
      is_abstract = True\<rparr>]"

text \<open>The names of the abstract methods.\<close>

definition abstract_methods :: "string list" where
  "abstract_methods = map method_name (filter is_abstract SfcPluginBase)"

section \<open>Resource kinds in the words of the specification\<close>

text \<open>
  The specification speaks of three resource kinds, of five operations on each (create,
  update, delete, list, get), and of a not-found, an in-use and an invalid-input condition
  for each kind. The definitions of this section follow those words; they are compared
  with the declarations of the module below.
\<close>

datatype resource_kind = Port_pair | Port_pair_group | Port_chain

datatype operation = Create | Update | Delete | List_all | Get

definition resource_kinds :: "resource_kind list" where
  "resource_kinds = [Port_pair, Port_pair_group, Port_chain]"

definition operations :: "operation list" where
  "operations = [Create, Update, Delete, List_all, Get]"

definition host_excs :: "host_exc list" where
  "host_excs = [NotFound, InUse, InvalidInput]"

fun kind_snake :: "resource_kind \<Rightarrow> string" where
  "kind_snake Port_pair = ''port_pair''"
| "kind_snake Port_pair_group = ''port_pair_group''"
| "kind_snake Port_chain = ''port_chain''"

text \<open>The name of the method of the host's plugin convention for an operation on a kind.\<close>

fun spec_operation :: "operation \<Rightarrow> resource_kind \<Rightarrow> string" where
  "spec_operation Create k = ''create_'' @ kind_snake k"
| "spec_operation Update k = ''update_'' @ kind_snake k"
| "spec_operation Delete k = ''delete_'' @ kind_snake k"
| "spec_operation List_all k = ''get_'' @ kind_snake k @ ''s''"
| "spec_operation Get k = ''get_'' @ kind_snake k"

definition spec_operations :: "string list" where
  "spec_operations = concat (map (\<lambda>k. map (\<lambda>op. spec_operation op k) operations) resource_kinds)"

text \<open>
  The resource kind an exception class is named after: the kind whose name occurs in the
  name of the class, a port pair group before a port pair.
\<close>

definition exc_kind :: "exc_class \<Rightarrow> resource_kind option" where
  "exc_kind e =
     (if contains ''PortPairGroup'' (exc_name e) then Some Port_pair_group
      else if contains ''PortPair'' (exc_name e) then Some Port_pair
      else if contains ''PortChain'' (exc_name e) then Some Port_chain
      else None)"

text \<open>The declared exception classes of a kind with a given base class.\<close>

definition conditions :: "resource_kind \<Rightarrow> host_exc \<Rightarrow> exc_class list" where
  "conditions k b = filter (\<lambda>e. exc_kind e = Some k \<and> exc_base e = b) exception_classes"

section \<open>Kinds of values\<close>

text \<open>A list; and a single value: a boolean, a number or a string.\<close>

fun is_list :: "pyval \<Rightarrow> bool" where
  "is_list (PList xs) = True"
| "is_list v = False"

fun is_scalar :: "pyval \<Rightarrow> bool" where
  "is_scalar (PBool b) = True"
| "is_scalar (PInt n) = True"
| "is_scalar (PFloat x) = True"
| "is_scalar (PStr s) = True"
| "is_scalar v = False"

section \<open>Properties\<close>

lemma is_str_hashable: "is_str x \<Longrightarrow> hashable x"
  by (cases x) simp_all

lemma is_str_py_key: "is_str x \<Longrightarrow> py_key x = x"
  by (cases x) simp_all

lemma list_all_str_hashable: "list_all is_str xs \<Longrightarrow> list_all hashable xs"
  by (induction xs) (simp_all add: is_str_hashable)

lemma list_all_str_py_key: "list_all is_str xs \<Longrightarrow> map py_key xs = xs"
  by (induction xs) (simp_all add: is_str_py_key)

lemma supported_are_strings: "list_all is_str SUPPORTED_LB_FIELDS"
  by (simp add: SUPPORTED_LB_FIELDS_def)

text \<open>
  A list of strings is accepted when all its members are among the eight supported field
  names, and is otherwise rejected with the message that carries exactly the members
  outside them.
\<close>

lemma lb_fields_strings:
  assumes "list_all is_str xs"
  shows "validate_list_of_allowed_values (PList xs) (Some SUPPORTED_LB_FIELDS) =
           (if set xs \<subseteq> set SUPPORTED_LB_FIELDS then Inr None
            else Inr (Some (IllegalValues (set xs - set SUPPORTED_LB_FIELDS))))"
proof -
  have s: "list_all is_str (filter (\<lambda>x. x \<in> set xs - set SUPPORTED_LB_FIELDS) xs)"
    using assms unfolding list_all_iff by simp
  show ?thesis
    using s list_all_str_hashable [OF assms] list_all_str_hashable [OF supported_are_strings]
    by (auto simp: validate_list_of_allowed_values_def list_all_str_py_key [OF assms]
          list_all_str_py_key [OF supported_are_strings])
qed

text \<open>
  Every list whose members are all among the eight supported field names is accepted.
\<close>

lemma lb_fields_accepted:
  assumes "set xs \<subseteq> set SUPPORTED_LB_FIELDS"
  shows "validate_list_of_allowed_values (PList xs) (Some SUPPORTED_LB_FIELDS) = Inr None"
proof -
  have "list_all is_str xs"
    using assms supported_are_strings unfolding list_all_iff by blast
  then show ?thesis
    using assms by (simp add: lb_fields_strings)
qed

text \<open>
  A list with an unhashable member raises \<^verbatim>\<open>TypeError\<close> as well, in \<^verbatim>\<open>set(data)\<close>; a
  value that is not a list is rejected with a message, whatever it is.
\<close>

lemma lb_fields_unhashable_raises:
  "validate_list_of_allowed_values (PList [PList [PStr ''eth_src'']])
     (Some SUPPORTED_LB_FIELDS) = Inl TypeError"
  by (simp add: validate_list_of_allowed_values_def)

lemma lb_fields_not_a_list:
  "\<not> is_list data \<Longrightarrow>
     validate_list_of_allowed_values data allowed_values = Inr (Some (NotAList data))"
  by (cases data) (simp_all add: validate_list_of_allowed_values_def)

text \<open>
  C1. Validating \<^verbatim>\<open>lb_fields\<close> against the eight supported field names does not return
  an error message for every list with a member outside them: on the list \<^verbatim>\<open>[5]\<close> the
  member outside is not a string, \<^verbatim>\<open>', '.join\<close> raises \<^verbatim>\<open>TypeError\<close> and no message is
  returned.
\<close>

theorem lb_fields_non_string_raises:
  "validate_list_of_allowed_values (PList [PInt 5]) (Some SUPPORTED_LB_FIELDS) = Inl TypeError"
  by (simp add: validate_list_of_allowed_values_def SUPPORTED_LB_FIELDS_def)

subsection \<open>The chain identifier\<close>

lemmas table_defs = attribute_of_def key_spec_of_def RESOURCE_ATTRIBUTE_MAP_def
  port_pairs_attributes_def port_chains_attributes_def port_pair_groups_attributes_def attr_def

text \<open>
  The defaults of the keys of the three parameter dictionaries are the entries of the
  constants \<open>DEFAULT_SF_PARAMETERS\<close>, \<open>DEFAULT_CHAIN_PARAMETERS\<close> and
  \<open>DEFAULT_PPG_PARAMETERS\<close>, as the source writes them.
\<close>

lemma key_defaults:
  "DEFAULT_SF_PARAMETERS =
     PDict (map (\<lambda>k. (k, key_default (the
       (key_spec_of ''port_pairs'' ''service_function_parameters'' k))))
       [''correlation'', ''weight''])"
  "DEFAULT_CHAIN_PARAMETERS =
     PDict (map (\<lambda>k. (k, key_default (the
       (key_spec_of ''port_chains'' ''chain_parameters'' k))))
       [''correlation'', ''symmetric''])"
  "DEFAULT_PPG_PARAMETERS =
     PDict (map (\<lambda>k. (k, key_default (the
       (key_spec_of ''port_pair_groups'' ''port_pair_group_parameters'' k))))
       [''lb_fields''])"
  by (simp_all add: table_defs DEFAULT_SF_PARAMETERS_def DEFAULT_CHAIN_PARAMETERS_def
        DEFAULT_CHAIN_CORRELATION_def DEFAULT_CHAIN_SYMMETRY_def DEFAULT_PPG_PARAMETERS_def)

text \<open>
  The rule of \<^verbatim>\<open>lb_fields\<close> is \<^verbatim>\<open>type:list_of_allowed_values\<close> with the eight supported
  field names.
\<close>

lemma lb_fields_rule:
  "key_spec_of ''port_pair_groups'' ''port_pair_group_parameters'' ''lb_fields'' =
     Some (Key_spec (PList []) (Some (Type_list_of_allowed_values SUPPORTED_LB_FIELDS)) None) \<and>
   length SUPPORTED_LB_FIELDS = 8 \<and> distinct SUPPORTED_LB_FIELDS"
  by (simp add: table_defs SUPPORTED_LB_FIELDS_def)





subsection \<open>The port pair groups of a chain\<close>




subsection \<open>Default parameters\<close>

text \<open>
  C4. The attribute \<^verbatim>\<open>chain_parameters\<close> has the default null and the converter
  \<open>normalize_chain_parameters\<close>. On null, on the empty dictionary and on every other
  value that Python takes as false, the result is exactly the dictionary with
  \<^verbatim>\<open>correlation\<close> \<open>mpls\<close> and \<^verbatim>\<open>symmetric\<close> false.
\<close>

theorem chain_parameters_default:
  "map_option attr_default (attribute_of ''port_chains'' ''chain_parameters'') =
     Some (Some PNone) \<and>
   map_option attr_convert_to (attribute_of ''port_chains'' ''chain_parameters'') =
     Some (Some Normalize_chain_parameters) \<and>
   normalize_chain_parameters PNone =
     Inr (PDict [(''correlation'', PStr ''mpls''), (''symmetric'', PBool False)]) \<and>
   normalize_chain_parameters (PDict []) =
     Inr (PDict [(''correlation'', PStr ''mpls''), (''symmetric'', PBool False)]) \<and>
   (\<not> py_truthy parameters \<longrightarrow>
      normalize_chain_parameters parameters =
        Inr (PDict [(''correlation'', PStr ''mpls''), (''symmetric'', PBool False)]))"
  by (simp add: table_defs normalize_chain_parameters_def DEFAULT_CHAIN_PARAMETERS_def
        DEFAULT_CHAIN_CORRELATION_def DEFAULT_CHAIN_SYMMETRY_def)

text \<open>
  The empty list is such a value.
\<close>

theorem chain_parameters_default_witness:
  "normalize_chain_parameters (PList []) =
     Inr (PDict [(''correlation'', PStr ''mpls''), (''symmetric'', PBool False)])"
  using chain_parameters_default [of "PList []"] by simp

text \<open>
  C5. The attribute \<^verbatim>\<open>service_function_parameters\<close> has the default null and the
  converter \<open>normalize_sf_parameters\<close>. On null, on the empty dictionary and on every
  other value that Python takes as false, the result is exactly the dictionary with
  \<^verbatim>\<open>correlation\<close> null and \<^verbatim>\<open>weight\<close> 1.
\<close>

theorem sf_parameters_default:
  "map_option attr_default (attribute_of ''port_pairs'' ''service_function_parameters'') =
     Some (Some PNone) \<and>
   map_option attr_convert_to (attribute_of ''port_pairs'' ''service_function_parameters'') =
     Some (Some Normalize_sf_parameters) \<and>
   normalize_sf_parameters PNone = PDict [(''correlation'', PNone), (''weight'', PInt 1)] \<and>
   normalize_sf_parameters (PDict []) = PDict [(''correlation'', PNone), (''weight'', PInt 1)] \<and>
   (\<not> py_truthy parameters \<longrightarrow>
      normalize_sf_parameters parameters =
        PDict [(''correlation'', PNone), (''weight'', PInt 1)])"
  by (simp add: table_defs normalize_sf_parameters_def DEFAULT_SF_PARAMETERS_def)

text \<open>
  The empty string is such a value.
\<close>

theorem sf_parameters_default_witness:
  "normalize_sf_parameters (PStr []) = PDict [(''correlation'', PNone), (''weight'', PInt 1)]"
  using sf_parameters_default [of "PStr []"] by simp

subsection \<open>The abstract operations of the plugin\<close>

lemma abstract_methods_eq:
  "abstract_methods =
     [''create_port_chain'', ''update_port_chain'', ''delete_port_chain'',
      ''get_port_chains'', ''get_port_chain'',
      ''create_port_pair_group'', ''update_port_pair_group'', ''delete_port_pair_group'',
      ''get_port_pair_groups'', ''get_port_pair_group'',
      ''create_port_pair'', ''update_port_pair'', ''delete_port_pair'',
      ''get_port_pairs'', ''get_port_pair'']"
  by (simp add: abstract_methods_def SfcPluginBase_def)

lemma spec_operations_eq:
  "spec_operations =
     [''create_port_pair'', ''update_port_pair'', ''delete_port_pair'',
      ''get_port_pairs'', ''get_port_pair'',
      ''create_port_pair_group'', ''update_port_pair_group'', ''delete_port_pair_group'',
      ''get_port_pair_groups'', ''get_port_pair_group'',
      ''create_port_chain'', ''update_port_chain'', ''delete_port_chain'',
      ''get_port_chains'', ''get_port_chain'']"
  by (simp add: spec_operations_def operations_def resource_kinds_def)

text \<open>
  C6, as stated, fails: the class \<^verbatim>\<open>SfcPluginBase\<close> declares fifteen abstract methods,
  not sixteen.
\<close>

theorem abstract_methods_not_sixteen:
  "length abstract_methods = 15 \<and> length abstract_methods \<noteq> 16"
  by (simp add: abstract_methods_def SfcPluginBase_def)

text \<open>
  C6, amended. The class \<^verbatim>\<open>SfcPluginBase\<close> declares exactly fifteen abstract
  operations, all different: create, update, delete, list and get for each of the three
  resource kinds, and nothing else.
\<close>

theorem abstract_methods_fifteen:
  "length abstract_methods = 15 \<and>
   length abstract_methods = length resource_kinds * length operations \<and>
   distinct abstract_methods \<and>
   set abstract_methods = set spec_operations"
proof -
  have "length abstract_methods = 15"
    by (simp add: abstract_methods_eq)
  moreover have "length resource_kinds * length operations = 15"
    by (simp add: operations_def resource_kinds_def)
  moreover have "distinct abstract_methods"
    unfolding abstract_methods_eq by simp
  moreover have "set abstract_methods = set spec_operations"
    unfolding abstract_methods_eq spec_operations_eq by (simp add: insert_commute)
  ultimately show ?thesis by simp
qed

subsection \<open>The exception conditions of each resource kind\<close>

lemmas exc_defs = PortChainNotFound_def PortChainUnavailableChainId_def
  PortChainFlowClassifierInConflict_def PortChainChainIdInConflict_def
  PortPairGroupNotSpecified_def InvalidPortPairGroups_def PortPairPortNotFound_def
  PortPairIngressEgressDifferentHost_def PortPairIngressNoHost_def PortPairEgressNoHost_def
  PortPairIngressEgressInUse_def PortPairNotFound_def PortPairGroupNotFound_def
  PortPairGroupInUse_def PortPairInUse_def

lemma conditions_table:
  "map exc_name (conditions Port_pair NotFound) = [''PortPairPortNotFound'', ''PortPairNotFound'']"
  "map exc_name (conditions Port_pair InUse) = [''PortPairInUse'']"
  "map exc_name (conditions Port_pair InvalidInput) =
     [''PortPairIngressEgressDifferentHost'', ''PortPairIngressNoHost'',
      ''PortPairEgressNoHost'', ''PortPairIngressEgressInUse'']"
  "map exc_name (conditions Port_pair_group NotFound) = [''PortPairGroupNotFound'']"
  "map exc_name (conditions Port_pair_group InUse) =
     [''InvalidPortPairGroups'', ''PortPairGroupInUse'']"
  "map exc_name (conditions Port_pair_group InvalidInput) = [''PortPairGroupNotSpecified'']"
  "map exc_name (conditions Port_chain NotFound) = [''PortChainNotFound'']"
  "map exc_name (conditions Port_chain InUse) = []"
  "map exc_name (conditions Port_chain InvalidInput) =
     [''PortChainUnavailableChainId'', ''PortChainFlowClassifierInConflict'',
      ''PortChainChainIdInConflict'']"
  by (simp_all add: conditions_def exception_classes_def exc_kind_def exc_defs)

lemma messages_fixed:
  "list_all (\<lambda>e. exc_kind e \<noteq> None \<and> exc_message e \<noteq> []) exception_classes"
  by (simp add: exception_classes_def exc_kind_def exc_defs)

text \<open>
  C7, as stated, fails: no exception class of a port chain derives from the host's
  \<open>InUse\<close>. The classes that derive from it are \<open>InvalidPortPairGroups\<close>,
  \<open>PortPairGroupInUse\<close> and \<open>PortPairInUse\<close>, named after port pair groups and port
  pairs.
\<close>

theorem port_chain_has_no_in_use_condition:
  "conditions Port_chain InUse = [] \<and>
   filter (\<lambda>e. exc_base e = InUse) exception_classes =
     [InvalidPortPairGroups, PortPairGroupInUse, PortPairInUse] \<and>
   map exc_kind [InvalidPortPairGroups, PortPairGroupInUse, PortPairInUse] =
     [Some Port_pair_group, Some Port_pair_group, Some Port_pair]"
  by (simp add: conditions_def exception_classes_def exc_kind_def exc_defs)

text \<open>
  C7, amended. Among the three resource kinds and the three host errors, the module
  declares an exception class for every pair except an in-use condition of a port chain:
  a not-found and an invalid-input condition for each kind, an in-use condition for port
  pairs and for port pair groups. Every declared class is named after one of the kinds
  and has a message template.
\<close>

theorem conditions_of_each_kind:
  "(conditions k b = []) = (k = Port_chain \<and> b = InUse) \<and>
   list_all (\<lambda>e. exc_kind e \<noteq> None \<and> exc_message e \<noteq> []) exception_classes"
proof -
  have "(map exc_name (conditions k b) = []) = (k = Port_chain \<and> b = InUse)"
    by (cases k; cases b) (simp_all only: conditions_table, simp_all)
  then show ?thesis
    using messages_fixed by simp
qed

text \<open>
  Three of the pairs that have a condition.
\<close>

theorem conditions_of_each_kind_witness:
  "conditions Port_pair InUse \<noteq> [] \<and> conditions Port_chain NotFound \<noteq> [] \<and>
   conditions Port_pair_group InvalidInput \<noteq> []"
  using conditions_of_each_kind [of Port_pair InUse]
    conditions_of_each_kind [of Port_chain NotFound]
    conditions_of_each_kind [of Port_pair_group InvalidInput]
  by simp

subsection \<open>Single values as port pair groups\<close>

lemma convert_to_list_empty:
  "(convert_to_list v = []) = (v = PNone \<or> v = PList [] \<or> v = PDict [])"
  by (cases v) simp_all

text \<open>
  C8, as stated, fails: the empty dictionary is neither a list nor null, and it is not
  wrapped into a list of one item: it converts to the empty list of its keys, and
  \<open>PortPairGroupNotSpecified\<close> is raised.
\<close>

theorem dict_is_not_wrapped:
  "\<not> is_list (PDict []) \<and> PDict [] \<noteq> PNone \<and>
   normalize_port_pair_groups (PDict []) = Inl (Raised PortPairGroupNotSpecified) \<and>
   normalize_port_pair_groups (PDict []) \<noteq> Inr [PDict []]"
  by (simp add: normalize_port_pair_groups_def)

text \<open>
  C8, amended. \<open>normalize_port_pair_groups\<close> wraps a single boolean, number or
  string \<open>v\<close> into the list \<open>[v]\<close> and returns it; a list is returned as it is unless
  it is empty; a dictionary is converted to the list of its keys, which is returned
  unless it is empty; \<open>PortPairGroupNotSpecified\<close> is raised exactly when the converted
  input is the empty list, which is when the input is null, the empty list or the empty
  dictionary, and in every other case a list is returned.
\<close>

theorem normalize_port_pair_groups_wraps_scalars:
  "(is_scalar v \<longrightarrow> normalize_port_pair_groups v = Inr [v]) \<and>
   (normalize_port_pair_groups (PList xs) =
      (if xs = [] then Inl (Raised PortPairGroupNotSpecified) else Inr xs)) \<and>
   (normalize_port_pair_groups (PDict kvs) =
      (if kvs = [] then Inl (Raised PortPairGroupNotSpecified)
       else Inr (map (\<lambda>kv. PStr (fst kv)) kvs))) \<and>
   (normalize_port_pair_groups v = Inl (Raised PortPairGroupNotSpecified)) =
      (v = PNone \<or> v = PList [] \<or> v = PDict []) \<and>
   (\<exists>ys. normalize_port_pair_groups v = Inr ys) =
      (\<not> (v = PNone \<or> v = PList [] \<or> v = PDict []))"
proof -
  have "is_scalar v \<longrightarrow> normalize_port_pair_groups v = Inr [v]"
    by (cases v) (simp_all add: normalize_port_pair_groups_def)
  moreover have "normalize_port_pair_groups (PList xs) =
      (if xs = [] then Inl (Raised PortPairGroupNotSpecified) else Inr xs)"
    by (simp add: normalize_port_pair_groups_def)
  moreover have "normalize_port_pair_groups (PDict kvs) =
      (if kvs = [] then Inl (Raised PortPairGroupNotSpecified)
       else Inr (map (\<lambda>kv. PStr (fst kv)) kvs))"
    by (simp add: normalize_port_pair_groups_def)
  moreover have "(normalize_port_pair_groups v = Inl (Raised PortPairGroupNotSpecified)) =
      (v = PNone \<or> v = PList [] \<or> v = PDict [])"
    using convert_to_list_empty [of v] by (simp add: normalize_port_pair_groups_def Let_def)
  moreover have "(\<exists>ys. normalize_port_pair_groups v = Inr ys) =
      (\<not> (v = PNone \<or> v = PList [] \<or> v = PDict []))"
    using convert_to_list_empty [of v] by (simp add: normalize_port_pair_groups_def Let_def)
  ultimately show ?thesis by blast
qed

text \<open>
  A single string and a list of one string give the same list; a dictionary of two
  keys gives the two keys.
\<close>

theorem normalize_port_pair_groups_wraps_scalars_witness:
  "normalize_port_pair_groups (PStr ''g1'') = Inr [PStr ''g1''] \<and>
   normalize_port_pair_groups (PList [PStr ''g1'']) = Inr [PStr ''g1''] \<and>
   normalize_port_pair_groups (PDict [(''a'', PInt 1), (''b'', PInt 2)]) =
     Inr [PStr ''a'', PStr ''b'']"
  using normalize_port_pair_groups_wraps_scalars
    [of "PStr ''g1''" "[PStr ''g1'']" "[(''a'', PInt 1), (''b'', PInt 2)]"]
  by simp

subsection \<open>Chain parameters that are given\<close>

lemma dict_set_absent: "k \<notin> set (map fst kvs) \<Longrightarrow> dict_set k v kvs = kvs @ [(k, v)]"
  by (induction kvs) auto

lemma set_default_dict:
  "set_default k v (PDict kvs) =
     Inr (PDict (if k \<in> set (map fst kvs) then kvs else kvs @ [(k, v)]))"
  by (simp add: set_default_def dict_set_absent)

lemma normalize_chain_parameters_dict:
  assumes "kvs \<noteq> []"
  shows "normalize_chain_parameters (PDict kvs) =
           Inr (PDict (kvs @
             filter (\<lambda>d. fst d \<notin> set (map fst kvs))
               [(''correlation'', PStr ''mpls''), (''symmetric'', PBool False)]))"
  using assms
  by (simp add: normalize_chain_parameters_def set_default_dict
        DEFAULT_CHAIN_CORRELATION_def DEFAULT_CHAIN_SYMMETRY_def)

lemma map_of_filled:
  "map_of (kvs @ filter (\<lambda>d. fst d \<notin> set (map fst kvs)) ds) = map_of ds ++ map_of kvs"
proof
  fix k
  show "map_of (kvs @ filter (\<lambda>d. fst d \<notin> set (map fst kvs)) ds) k =
          (map_of ds ++ map_of kvs) k"
  proof (cases "map_of kvs k")
    case None
    then have "k \<notin> set (map fst kvs)"
      by (simp add: map_of_eq_None_iff)
    then have "map_of (filter (\<lambda>d. fst d \<notin> set (map fst kvs)) ds) k = map_of ds k"
      by (induction ds) auto
    with None show ?thesis
      by (simp add: map_add_def)
  next
    case (Some v)
    then show ?thesis
      by (simp add: map_add_def)
  qed
qed

text \<open>
  C9. On a dictionary \<open>kvs\<close> that is not empty, \<open>normalize_chain_parameters\<close> returns
  a dictionary \<open>kvs'\<close> that starts with the entries of \<open>kvs\<close>: every key of \<open>kvs\<close>
  keeps its value, \<^verbatim>\<open>correlation\<close> and \<^verbatim>\<open>symmetric\<close> among them, and each of the two
  keys that \<open>kvs\<close> does not have gets its default. Normalizing the result again gives
  the same result.
\<close>

theorem normalize_chain_parameters_keeps_present:
  assumes "kvs \<noteq> []"
  shows "\<exists>kvs'. normalize_chain_parameters (PDict kvs) = Inr (PDict kvs') \<and>
           take (length kvs) kvs' = kvs \<and>
           map_of kvs' =
             map_of [(''correlation'', PStr ''mpls''), (''symmetric'', PBool False)] ++
             map_of kvs \<and>
           (\<forall>k v. map_of kvs k = Some v \<longrightarrow> map_of kvs' k = Some v) \<and>
           (map_of kvs ''correlation'' = None \<longrightarrow>
              map_of kvs' ''correlation'' = Some (PStr ''mpls'')) \<and>
           (map_of kvs ''symmetric'' = None \<longrightarrow>
              map_of kvs' ''symmetric'' = Some (PBool False)) \<and>
           normalize_chain_parameters (PDict kvs') = Inr (PDict kvs')"
proof -
  define kvs' where "kvs' = kvs @ filter (\<lambda>d. fst d \<notin> set (map fst kvs))
    [(''correlation'', PStr ''mpls''), (''symmetric'', PBool False)]"
  have r: "normalize_chain_parameters (PDict kvs) = Inr (PDict kvs')"
    using normalize_chain_parameters_dict [OF assms] by (simp add: kvs'_def)
  have t: "take (length kvs) kvs' = kvs"
    by (simp add: kvs'_def)
  have m: "map_of kvs' =
      map_of [(''correlation'', PStr ''mpls''), (''symmetric'', PBool False)] ++ map_of kvs"
    unfolding kvs'_def by (rule map_of_filled)
  have p: "\<forall>k v. map_of kvs k = Some v \<longrightarrow> map_of kvs' k = Some v"
    by (simp add: m map_add_def)
  have c: "map_of kvs ''correlation'' = None \<longrightarrow>
      map_of kvs' ''correlation'' = Some (PStr ''mpls'')"
    by (simp add: m map_add_def)
  have s: "map_of kvs ''symmetric'' = None \<longrightarrow>
      map_of kvs' ''symmetric'' = Some (PBool False)"
    by (simp add: m map_add_def)
  have ne: "kvs' \<noteq> []"
    using assms by (simp add: kvs'_def)
  have keys: "''correlation'' \<in> set (map fst kvs') \<and> ''symmetric'' \<in> set (map fst kvs')"
    by (auto simp: kvs'_def)
  have i: "normalize_chain_parameters (PDict kvs') = Inr (PDict kvs')"
    using normalize_chain_parameters_dict [OF ne] keys by simp
  show ?thesis
  proof (intro exI conjI)
    show "normalize_chain_parameters (PDict kvs) = Inr (PDict kvs')" by (rule r)
    show "take (length kvs) kvs' = kvs" by (rule t)
    show "map_of kvs' =
      map_of [(''correlation'', PStr ''mpls''), (''symmetric'', PBool False)] ++ map_of kvs"
      by (rule m)
    show "\<forall>k v. map_of kvs k = Some v \<longrightarrow> map_of kvs' k = Some v" by (rule p)
    show "map_of kvs ''correlation'' = None \<longrightarrow>
      map_of kvs' ''correlation'' = Some (PStr ''mpls'')" by (rule c)
    show "map_of kvs ''symmetric'' = None \<longrightarrow>
      map_of kvs' ''symmetric'' = Some (PBool False)" by (rule s)
    show "normalize_chain_parameters (PDict kvs') = Inr (PDict kvs')" by (rule i)
  qed
qed

text \<open>
  A dictionary that sets \<^verbatim>\<open>symmetric\<close> to true keeps it and gets the default
  correlation.
\<close>

theorem normalize_chain_parameters_keeps_present_witness:
  "\<exists>kvs'. normalize_chain_parameters (PDict [(''symmetric'', PBool True)]) = Inr (PDict kvs') \<and>
     map_of kvs' ''symmetric'' = Some (PBool True) \<and>
     map_of kvs' ''correlation'' = Some (PStr ''mpls'') \<and>
     normalize_chain_parameters (PDict kvs') = Inr (PDict kvs')"
proof -
  have ne: "[(''symmetric'', PBool True)] \<noteq> []" by simp
  from normalize_chain_parameters_keeps_present [OF ne]
  obtain kvs' where
    r: "normalize_chain_parameters (PDict [(''symmetric'', PBool True)]) = Inr (PDict kvs')"
    and p: "\<forall>k v. map_of [(''symmetric'', PBool True)] k = Some v \<longrightarrow>
         map_of kvs' k = Some v"
    and c: "map_of [(''symmetric'', PBool True)] ''correlation'' = None \<longrightarrow>
       map_of kvs' ''correlation'' = Some (PStr ''mpls'')"
    and i: "normalize_chain_parameters (PDict kvs') = Inr (PDict kvs')"
    by (elim exE conjE)
  have "map_of kvs' ''symmetric'' = Some (PBool True)"
    using p by simp
  moreover have "map_of kvs' ''correlation'' = Some (PStr ''mpls'')"
    using c by simp
  ultimately show ?thesis
    using r i by (intro exI [of _ kvs']) simp
qed

subsection \<open>The correlation of a port pair\<close>

text \<open>
  C10. In the port pair schema the key \<^verbatim>\<open>correlation\<close> of
  \<^verbatim>\<open>service_function_parameters\<close> has the default null and the rule \<^verbatim>\<open>type:values\<close>
  with the single allowed value null: validation accepts null only, and rejects every
  other value with a message.
\<close>

theorem port_pair_correlation_only_null:
  "key_spec_of ''port_pairs'' ''service_function_parameters'' ''correlation'' =
     Some (Key_spec PNone (Some (Type_values [PNone])) None) \<and>
   (validate_values v [PNone] = None) = (v = PNone) \<and>
   (v \<noteq> PNone \<longrightarrow> validate_values v [PNone] = Some (NotInValues v [PNone]))"
proof -
  have "(py_key v = PNone) = (v = PNone)"
    by (cases v) simp_all
  then show ?thesis
    by (simp add: table_defs validate_values_def)
qed

text \<open>
  The correlation \<open>mpls\<close> is rejected for a port pair, and null is accepted.
\<close>

theorem port_pair_correlation_only_null_witness:
  "validate_values (PStr ''mpls'') [PNone] = Some (NotInValues (PStr ''mpls'') [PNone]) \<and>
   validate_values PNone [PNone] = None"
  using port_pair_correlation_only_null [of "PStr ''mpls''"]
    port_pair_correlation_only_null [of PNone]
  by simp

end
